theory Spec2Isabelle
  imports Complex_Main
begin

section \<open>The slideshow script \<open>movieee.py\<close>\<close>

text \<open>
  The script builds one zooming clip per still image and concatenates the clips.
  Python's floating-point numbers are idealised as real numbers, so the theorems are
  about the formulas of the script in exact arithmetic.  The sample clip used for the
  concrete evaluations has a duration of 4, a zoom magnitude of 1/2 and whole frame
  times: on these inputs every operation of the scale and of the window size is exact
  in binary floating point as well.  Everything the script does beyond arithmetic is made explicit: a
  division by zero or a missing image is an error value, the random generator is a
  state that is passed along, and the inner function \<open>make_frame\<close>, a closure in
  the source, receives its captured variables as a record.
\<close>

subsection \<open>Python values\<close>

datatype error = ZeroDivisionError | IOError | ValueError

text \<open>True division \<open>a / b\<close>: raises on a zero divisor, for floats as for integers.\<close>

definition py_div :: "real \<Rightarrow> real \<Rightarrow> error + real" where
  "py_div a b = (if b = 0 then Inl ZeroDivisionError else Inr (a / b))"

text \<open>\<open>int(x)\<close> on a float truncates towards zero.\<close>

definition py_int :: "real \<Rightarrow> int" where
  "py_int x = (if 0 \<le> x then \<lfloor>x\<rfloor> else \<lceil>x\<rceil>)"

text \<open>
  The generator state is the sequence of values that \<open>random.random()\<close> is still going
  to return, each of them in the half-open interval from 0 to 1.
  \<open>random.uniform(a, b)\<close> is \<open>a + (b - a) * random()\<close>.
\<close>

type_synonym rng = "nat \<Rightarrow> real"

definition random_random :: "rng \<Rightarrow> real \<times> rng" where
  "random_random g = (g 0, \<lambda>n. g (Suc n))"

definition random_uniform :: "real \<Rightarrow> real \<Rightarrow> rng \<Rightarrow> real \<times> rng" where
  "random_uniform a b g = (case random_random g of (u, g') \<Rightarrow> (a + (b - a) * u, g'))"

subsection \<open>Parameters\<close>

definition image_files :: "string list" where
  "image_files =
     [''apl1.jpg'', ''apl2.jpg'', ''apl3.jpg'', ''apl4.jpg'',
      ''apl5.jpg'', ''apl6.jpg'', ''apl7.jpg'', ''apl8.jpg'',
      ''apl9.jpg'', ''apl10.jpg'', ''apl11.jpg'', ''apl12.jpg'']"

definition output_video :: string where
  "output_video = ''apl.mp4''"

definition duration_per_image :: real where
  "duration_per_image = 5"

definition zoom_factor :: real where
  "zoom_factor = 1 / 10"

definition fps :: nat where
  "fps = 30"

subsection \<open>Clips\<close>

text \<open>
  The images on disk: a file name is mapped to the width and height of its picture,
  and a name outside the domain is a file that cannot be read.  \<open>ImageClip\<close> yields a
  clip of the given duration whose size is that of the picture.
\<close>

type_synonym image_store = "string \<rightharpoonup> nat \<times> nat"

record clip =
  clip_source :: string
  clip_duration :: real
  clip_size :: "nat \<times> nat"

definition ImageClip :: "image_store \<Rightarrow> string \<Rightarrow> real \<Rightarrow> error + clip" where
  "ImageClip fs image_file dur =
     (case fs image_file of
        None \<Rightarrow> Inl IOError
      | Some sz \<Rightarrow> Inr \<lparr>clip_source = image_file, clip_duration = dur, clip_size = sz\<rparr>)"

text \<open>
  The clip returned by \<open>clip.fl(make_frame)\<close>: the base clip, whose duration it keeps,
  together with the variables that \<open>make_frame\<close> captures.
\<close>

record zoom_clip =
  zc_clip :: clip
  zc_width :: nat
  zc_height :: nat
  zc_zoom_x :: real
  zc_zoom_y :: real
  zc_zoom_factor :: real
  zc_duration :: real

text \<open>The arguments that \<open>make_frame\<close> hands to \<open>clip.crop\<close>.\<close>

record crop_window =
  x_center :: real
  y_center :: real
  cw_width :: int
  cw_height :: int

subsection \<open>The zoom effect\<close>

text \<open>
  The first statement of \<open>make_frame\<close>:
  \<^verbatim>\<open>scale = 1 + zoom_factor * (t / duration) if t < duration / 2
          else 1 + zoom_factor * (1 - t / duration)\<close>
  The condition divides by the literal 2 and cannot fail; the chosen branch divides
  by \<open>duration\<close>.
\<close>

definition scale :: "real \<Rightarrow> real \<Rightarrow> real \<Rightarrow> error + real" where
  "scale zf dur t =
     (if t < dur / 2
      then (case py_div t dur of Inl e \<Rightarrow> Inl e | Inr q \<Rightarrow> Inr (1 + zf * q))
      else (case py_div t dur of Inl e \<Rightarrow> Inl e | Inr q \<Rightarrow> Inr (1 + zf * (1 - q))))"

definition make_frame :: "zoom_clip \<Rightarrow> real \<Rightarrow> error + crop_window" where
  "make_frame zc t =
     (case scale (zc_zoom_factor zc) (zc_duration zc) t of
        Inl e \<Rightarrow> Inl e
      | Inr s \<Rightarrow>
          Inr \<lparr>x_center = zc_zoom_x zc, y_center = zc_zoom_y zc,
               cw_width = py_int (real (zc_width zc) * s),
               cw_height = py_int (real (zc_height zc) * s)\<rparr>)"

definition create_zoom_effect ::
  "image_store \<Rightarrow> string \<Rightarrow> real \<Rightarrow> real \<Rightarrow> rng \<Rightarrow> (error + zoom_clip) \<times> rng" where
  "create_zoom_effect fs image_file dur zf g =
     (case ImageClip fs image_file dur of
        Inl e \<Rightarrow> (Inl e, g)
      | Inr c \<Rightarrow>
          (case clip_size c of (width, height) \<Rightarrow>
           case random_uniform (3 / 10) (7 / 10) g of (ux, g1) \<Rightarrow>
           case random_uniform (3 / 10) (7 / 10) g1 of (uy, g2) \<Rightarrow>
             (Inr \<lparr>zc_clip = c, zc_width = width, zc_height = height,
                   zc_zoom_x = ux * real width, zc_zoom_y = uy * real height,
                   zc_zoom_factor = zf, zc_duration = dur\<rparr>, g2)))"

subsection \<open>The slideshow\<close>

text \<open>
  \<open>concatenate_videoclips\<close> belongs to the video library.  Played one after the other
  with no padding, the clips make a timeline as long as their durations together.
  What the library does with no clip at all is not fixed by the script, so it is a
  parameter: \<open>rejects_empty\<close> says whether an empty list is an error.
\<close>

record timeline =
  tl_clips :: "zoom_clip list"
  tl_duration :: real

definition concatenate_videoclips :: "bool \<Rightarrow> zoom_clip list \<Rightarrow> error + timeline" where
  "concatenate_videoclips rejects_empty clips =
     (if clips = [] \<and> rejects_empty then Inl ValueError
      else Inr \<lparr>tl_clips = clips,
                tl_duration = sum_list (map (\<lambda>c. clip_duration (zc_clip c)) clips)\<rparr>)"

text \<open>
  The list comprehension of \<open>create_slideshow\<close>: one clip per image, in list order,
  the generator passed from one image to the next, stopping at the first error.
\<close>

fun create_clips ::
  "image_store \<Rightarrow> real \<Rightarrow> real \<Rightarrow> string list \<Rightarrow> rng \<Rightarrow> (error + zoom_clip list) \<times> rng" where
  "create_clips fs dur zf [] g = (Inr [], g)"
| "create_clips fs dur zf (img # imgs) g =
     (case create_zoom_effect fs img dur zf g of
        (Inl e, g') \<Rightarrow> (Inl e, g')
      | (Inr c, g') \<Rightarrow>
          (case create_clips fs dur zf imgs g' of
             (Inl e, g'') \<Rightarrow> (Inl e, g'')
           | (Inr cs, g'') \<Rightarrow> (Inr (c # cs), g'')))"

definition create_slideshow ::
  "bool \<Rightarrow> image_store \<Rightarrow> string list \<Rightarrow> real \<Rightarrow> real \<Rightarrow> rng \<Rightarrow> (error + timeline) \<times> rng" where
  "create_slideshow rejects_empty fs files dur zf g =
     (case create_clips fs dur zf files g of
        (Inl e, g') \<Rightarrow> (Inl e, g')
      | (Inr clips, g') \<Rightarrow> (concatenate_videoclips rejects_empty clips, g'))"

subsection \<open>A sample run\<close>

text \<open>
  A store in which every image of the list is 1000 pixels wide and 4 pixels high, a
  generator that returns 1/2 at every draw, and the clip that \<open>create_zoom_effect\<close>
  makes from them for a duration of 4 and a zoom magnitude of 1/2.
\<close>

definition sample_store :: image_store where
  "sample_store = (\<lambda>f. if f \<in> set image_files then Some (1000, 4) else None)"

definition sample_rng :: rng where
  "sample_rng = (\<lambda>n. 1 / 2)"

definition sample_clip :: zoom_clip where
  "sample_clip =
     \<lparr>zc_clip = \<lparr>clip_source = ''apl1.jpg'', clip_duration = 4, clip_size = (1000, 4)\<rparr>,
      zc_width = 1000, zc_height = 4, zc_zoom_x = 500, zc_zoom_y = 2,
      zc_zoom_factor = 1 / 2, zc_duration = 4\<rparr>"

section \<open>Auxiliary facts\<close>

subsection \<open>Truncation\<close>

lemma py_int_nonneg: "0 \<le> x \<Longrightarrow> py_int x = \<lfloor>x\<rfloor>"
  by (simp add: py_int_def)


lemma py_int_scaled_ge:
  assumes "1 \<le> s"
  shows "int n \<le> py_int (real n * s)"
proof -
  have "real n * 1 \<le> real n * s" using assms by (intro mult_left_mono) simp_all
  then have le: "real n \<le> real n * s" by simp
  then have "0 \<le> real n * s" by (meson of_nat_0_le_iff order_trans)
  then have "py_int (real n * s) = \<lfloor>real n * s\<rfloor>" by (rule py_int_nonneg)
  moreover have "int n \<le> \<lfloor>real n * s\<rfloor>" using le by (simp add: le_floor_iff)
  ultimately show ?thesis by simp
qed



subsection \<open>The scale formula for a positive duration\<close>

lemma scale_pos_duration:
  "0 < D \<Longrightarrow>
   scale Z D t = Inr (if t < D / 2 then 1 + Z * (t / D) else 1 + Z * (1 - t / D))"
  by (simp add: scale_def py_div_def)


lemma scale_midpoint: "0 < D \<Longrightarrow> scale Z D (D / 2) = Inr (1 + Z / 2)"
  by (simp add: scale_pos_duration)



lemma scale_value_bounds:
  fixes D Z t :: real
  assumes "0 < D" "0 \<le> Z" "0 \<le> t" "t \<le> D"
  defines "s \<equiv> (if t < D / 2 then 1 + Z * (t / D) else 1 + Z * (1 - t / D))"
  shows "1 \<le> s" and "s \<le> 1 + Z / 2"
proof -
  have q: "0 \<le> t / D" "t / D \<le> 1" using assms(1,3,4) by simp_all
  have "0 \<le> Z * (t / D)" "0 \<le> Z * (1 - t / D)"
    using q assms(2) by (simp_all only: mult_nonneg_nonneg diff_ge_0_iff_ge)
  then show "1 \<le> s"
    by (simp add: s_def)
  show "s \<le> 1 + Z / 2"
  proof (cases "t < D / 2")
    case True
    then have "t / D \<le> 1 / 2" using assms(1) by (simp add: field_simps)
    then have "Z * (t / D) \<le> Z * (1 / 2)" using assms(2) by (rule mult_left_mono)
    then show ?thesis using True by (simp add: s_def)
  next
    case False
    then have "1 - t / D \<le> 1 / 2" using assms(1) by (simp add: field_simps)
    then have "Z * (1 - t / D) \<le> Z * (1 / 2)" using assms(2) by (rule mult_left_mono)
    then show ?thesis using False by (simp add: s_def)
  qed
qed

subsection \<open>Creating clips\<close>







section \<open>The scale over the duration of a clip\<close>

text \<open>
  C3: for every duration \<open>D > 0\<close> and every zoom magnitude \<open>Z\<close>, the scale is exactly 1
  at \<open>t = 0\<close> and at \<open>t = D\<close>: there is no zoom at the two ends of a clip.
\<close>

theorem scale_boundaries:
  "0 < D \<Longrightarrow> scale Z D 0 = Inr 1 \<and> scale Z D D = Inr 1"
  by (simp add: scale_pos_duration)

theorem scale_boundaries_witness:
  "(0::real) < 5 \<and> scale (1 / 10) 5 0 = Inr 1 \<and> scale (1 / 10) 5 5 = Inr 1"
  using scale_boundaries [of 5 "1 / 10"] by simp

text \<open>
  C1: the claim is that the scale at the midpoint \<open>t = D / 2\<close> is \<open>1 + Z\<close>.  At the
  midpoint the condition \<open>t < duration / 2\<close> is false, the second branch gives
  \<open>1 + Z * (1 - 1/2)\<close>, and the first branch tends to the same value from below
  (lemma \<open>scale_midpoint\<close>): the scale never exceeds \<open>1 + Z / 2\<close>.  With the
  parameters of the script, a zoom magnitude of 0.1 commented as a 10% zoom and 5
  seconds per image, the frame at 2.5 seconds has the scale 1.05 and not 1.1; on the
  sample clip the frame at 2 seconds has the scale 1.25 and not 1.5.
\<close>

theorem midpoint_scale_half_zoom:
  "scale zoom_factor duration_per_image (duration_per_image / 2) = Inr (21 / 20)
   \<and> (21 / 20 :: real) \<noteq> 1 + zoom_factor
   \<and> scale (zc_zoom_factor sample_clip) (zc_duration sample_clip) (zc_duration sample_clip / 2)
       = Inr (5 / 4)
   \<and> (5 / 4 :: real) \<noteq> 1 + zc_zoom_factor sample_clip"
  by (simp add: scale_def py_div_def zoom_factor_def duration_per_image_def sample_clip_def)





section \<open>The crop window\<close>

text \<open>
  C10: for every duration \<open>D > 0\<close>, zoom magnitude \<open>Z \<ge> 0\<close> and time \<open>t\<close> from 0 to \<open>D\<close>,
  the scale lies between 1 and \<open>1 + Z / 2\<close>, and so the crop window that \<open>make_frame\<close>
  asks for is never smaller than the image: its width is at least the image's width and
  its height at least the image's height.
\<close>

theorem crop_window_not_smaller:
  assumes "0 < zc_duration zc" and "0 \<le> zc_zoom_factor zc"
    and "0 \<le> t" and "t \<le> zc_duration zc"
  shows "\<exists>s w. scale (zc_zoom_factor zc) (zc_duration zc) t = Inr s
           \<and> 1 \<le> s \<and> s \<le> 1 + zc_zoom_factor zc / 2
           \<and> make_frame zc t = Inr w
           \<and> int (zc_width zc) \<le> cw_width w \<and> int (zc_height zc) \<le> cw_height w"
proof -
  let ?D = "zc_duration zc" and ?Z = "zc_zoom_factor zc"
  let ?s = "if t < ?D / 2 then 1 + ?Z * (t / ?D) else 1 + ?Z * (1 - t / ?D)"
  have sc: "scale ?Z ?D t = Inr ?s" using assms(1) by (rule scale_pos_duration)
  have lo: "1 \<le> ?s" and hi: "?s \<le> 1 + ?Z / 2"
    using scale_value_bounds [OF assms] by simp_all
  have mf: "make_frame zc t =
      Inr \<lparr>x_center = zc_zoom_x zc, y_center = zc_zoom_y zc,
           cw_width = py_int (real (zc_width zc) * ?s),
           cw_height = py_int (real (zc_height zc) * ?s)\<rparr>"
    unfolding make_frame_def sc by simp
  show ?thesis
    using sc lo hi mf py_int_scaled_ge [OF lo, of "zc_width zc"]
      py_int_scaled_ge [OF lo, of "zc_height zc"]
    by simp
qed

theorem crop_window_not_smaller_witness:
  "0 < zc_duration sample_clip \<and> 0 \<le> zc_zoom_factor sample_clip
   \<and> (0::real) \<le> 1 \<and> 1 \<le> zc_duration sample_clip
   \<and> (\<exists>s w. scale (1 / 2) 4 1 = Inr s \<and> 1 \<le> s \<and> s \<le> 1 + (1 / 2) / 2
          \<and> make_frame sample_clip 1 = Inr w \<and> 1000 \<le> cw_width w \<and> 4 \<le> cw_height w)"
  using crop_window_not_smaller [of sample_clip 1]
  by (auto simp add: sample_clip_def)




section \<open>The zoom centre\<close>





section \<open>The assembled timeline\<close>



text \<open>
  C8: for an empty list of images the script itself raises nothing and draws nothing:
  it builds no clip and hands the empty list to the library's concatenation.  The
  result is then either the library's error or an empty timeline of duration 0,
  depending on what the library does with no clip, which the script does not fix.
\<close>

theorem empty_slideshow:
  "create_clips fs dur Z [] g = (Inr [], g)
   \<and> (create_slideshow r fs [] dur Z g = (Inl ValueError, g)
      \<or> create_slideshow r fs [] dur Z g = (Inr \<lparr>tl_clips = [], tl_duration = 0\<rparr>, g))"
  by (simp add: create_slideshow_def concatenate_videoclips_def)

theorem empty_slideshow_witness:
  "create_slideshow True sample_store [] 5 (1 / 10) sample_rng = (Inl ValueError, sample_rng)
   \<and> create_slideshow False sample_store [] 5 (1 / 10) sample_rng
       = (Inr \<lparr>tl_clips = [], tl_duration = 0\<rparr>, sample_rng)"
  using empty_slideshow [of sample_store 5 "1 / 10" sample_rng True]
    empty_slideshow [of sample_store 5 "1 / 10" sample_rng False]
  by (simp add: create_slideshow_def concatenate_videoclips_def)

end
